theory Spec2Isabelle
  imports Complex_Main "HOL-Library.Sublist"
begin

section \<open>The Dataset\<close>

text \<open>
  The dashboard holds one pandas DataFrame \<open>df\<close>, loaded by \<open>pd.read_csv\<close>. A frame is the
  ordered list of its named columns; a column is a typed array. The element types are those
  \<open>read_csv\<close> infers (float64, int64, bool, object) and the one the program itself creates
  (datetime64, by \<open>pd.to_datetime\<close>). A missing float is NaN, a missing timestamp is NaT and
  a missing cell of an object column is NaN: all three are \<open>None\<close> here. A timestamp is its
  count of nanoseconds since 1970-01-01, as datetime64[ns] stores it. Floats are modelled by
  real numbers: rounding is not part of the model.

  \<open>read_csv\<close> renames the repeated names of a header (\<open>x\<close>, \<open>x.1\<close>), so the labels of a
  loaded frame are unique. The operations below are defined for any frame; the results that
  need unique labels say so (\<open>distinct (columns df)\<close>).
\<close>

datatype dtype = Float64 | Int64 | Bool | Datetime64 | Object

datatype column =
    FloatCol "real option list"
  | IntCol "int list"
  | BoolCol "bool list"
  | DatetimeCol "int option list"
  | ObjectCol "string option list"

fun dtype_of :: "column \<Rightarrow> dtype" where
  "dtype_of (FloatCol xs) = Float64"
| "dtype_of (IntCol xs) = Int64"
| "dtype_of (BoolCol xs) = Bool"
| "dtype_of (DatetimeCol xs) = Datetime64"
| "dtype_of (ObjectCol xs) = Object"

type_synonym dataframe = "(string \<times> column) list"

definition columns :: "dataframe \<Rightarrow> string list" where
  "columns df = map fst df"

text \<open>\<open>df.select_dtypes(include=[...])\<close>: the sub-frame of the columns whose dtype is listed.\<close>

definition select_dtypes :: "dtype list \<Rightarrow> dataframe \<Rightarrow> dataframe" where
  "select_dtypes incl df = filter (\<lambda>nc. dtype_of (snd nc) \<in> set incl) df"

text \<open>The three column lists the script computes (lines 63, 64 and 124, and 114).\<close>

definition numeric_cols :: "dataframe \<Rightarrow> string list" where
  "numeric_cols df = columns (select_dtypes [Float64, Int64] df)"

definition datetime_cols :: "dataframe \<Rightarrow> string list" where
  "datetime_cols df = columns (select_dtypes [Datetime64] df)"

definition category_cols :: "dataframe \<Rightarrow> string list" where
  "category_cols df = columns (select_dtypes [Object] df)"

section \<open>The pandas calls of the script\<close>

text \<open>
  The script is a sequence of pandas calls. Each call is modelled by what pandas documents for
  it, on the arguments this script can pass; a Python exception is an \<open>Inl\<close> value.
\<close>

datatype error = KeyError | ValueError | TypeError

text \<open>
  \<open>df[col]\<close> is a Series when one column carries the label, a DataFrame when several do and
  a KeyError when none does. \<open>df[col] = v\<close> replaces every column labelled \<open>col\<close> where it
  stands, and appends a new column when there is none.
\<close>

datatype pdobj = Series column | Frame dataframe

definition getitem :: "dataframe \<Rightarrow> string \<Rightarrow> error + pdobj" where
  "getitem df col =
     (case filter (\<lambda>nc. fst nc = col) df of
        [] \<Rightarrow> Inl KeyError
      | [nc] \<Rightarrow> Inr (Series (snd nc))
      | nc # ncs \<Rightarrow> Inr (Frame (nc # ncs)))"

definition setitem :: "dataframe \<Rightarrow> string \<Rightarrow> column \<Rightarrow> dataframe" where
  "setitem df col v =
     (if col \<in> set (columns df) then map (\<lambda>nc. if fst nc = col then (col, v) else nc) df
      else df @ [(col, v)])"

text \<open>\<open>df[labels]\<close> with a list of labels: the columns carrying each label, in the list's order.\<close>

definition getitem_list :: "dataframe \<Rightarrow> string list \<Rightarrow> dataframe" where
  "getitem_list df labels = concat (map (\<lambda>l. filter (\<lambda>nc. fst nc = l) df) labels)"

subsection \<open>\<open>pd.to_datetime\<close>\<close>

text \<open>
  \<open>pd.to_datetime(series)\<close> with the default \<open>errors='raise'\<close> parses every cell of a text
  column; a missing cell becomes NaT, and one cell that does not parse makes the whole call
  raise. What parses is the library's business: the parser is the parameter \<open>p\<close>. It reads
  one cell, and is given the column the cell stands in, since newer pandas releases settle
  on one date format for a column from its first value.
\<close>

type_synonym date_parser = "string option list \<Rightarrow> string \<Rightarrow> int option"

fun parse_cells :: "(string \<Rightarrow> int option) \<Rightarrow> string option list \<Rightarrow> int option list option" where
  "parse_cells p [] = Some []"
| "parse_cells p (None # cells) = map_option (Cons None) (parse_cells p cells)"
| "parse_cells p (Some s # cells) =
     (case p s of
        None \<Rightarrow> None
      | Some t \<Rightarrow> map_option (Cons (Some t)) (parse_cells p cells))"

text \<open>
  The script passes \<open>df[col]\<close> for the label of an object column: a text Series, or a Frame
  when the label is repeated (to_datetime then tries to assemble dates from columns named
  year, month and day, and refuses repeated labels with a ValueError). The other Series are
  listed for completeness: a datetime column is returned as it is, numbers are counts of
  nanoseconds since the epoch (the fraction of a float is dropped), booleans are refused.
\<close>

fun to_datetime :: "date_parser \<Rightarrow> pdobj \<Rightarrow> error + column" where
  "to_datetime p (Series (ObjectCol cells)) =
     (case parse_cells (p cells) cells of
        None \<Rightarrow> Inl ValueError
      | Some ts \<Rightarrow> Inr (DatetimeCol ts))"
| "to_datetime p (Series (DatetimeCol ts)) = Inr (DatetimeCol ts)"
| "to_datetime p (Series (IntCol xs)) = Inr (DatetimeCol (map Some xs))"
| "to_datetime p (Series (FloatCol xs)) =
     Inr (DatetimeCol (map (map_option (\<lambda>x. if 0 \<le> x then \<lfloor>x\<rfloor> else \<lceil>x\<rceil>)) xs))"
| "to_datetime p (Series (BoolCol bs)) = Inl TypeError"
| "to_datetime p (Frame f) = Inl ValueError"

subsection \<open>\<open>resample(rule).mean()\<close>\<close>

text \<open>
  A resampling rule cuts the time axis into consecutive periods. \<open>D\<close> is the calendar day,
  \<open>W\<close> the week that ends on Sunday, \<open>M\<close> the calendar month and \<open>Y\<close> the calendar year (in
  the pandas releases that take these four names); each function below numbers the periods
  along the axis. 1970-01-01, day 0, was a Thursday.
\<close>

definition ns_per_day :: int where
  "ns_per_day = 86400000000000"

definition day_of :: "int \<Rightarrow> int" where
  "day_of t = t div ns_per_day"

definition week_of :: "int \<Rightarrow> int" where
  "week_of t = (day_of t + 3) div 7"

text \<open>Year and month (1 to 12) of a day number, in the proleptic Gregorian calendar.\<close>

definition civil_from_days :: "int \<Rightarrow> int \<times> int" where
  "civil_from_days z =
     (let z' = z + 719468;
          era = z' div 146097;
          doe = z' mod 146097;
          yoe = (doe - doe div 1460 + doe div 36524 - doe div 146096) div 365;
          doy = doe - (365 * yoe + yoe div 4 - yoe div 100);
          mp = (5 * doy + 2) div 153;
          m = (if mp < 10 then mp + 3 else mp - 9);
          y = yoe + era * 400
      in (if m \<le> 2 then y + 1 else y, m))"

definition month_of :: "int \<Rightarrow> int" where
  "month_of t = (case civil_from_days (day_of t) of (y, m) \<Rightarrow> 12 * y + (m - 1))"

definition year_of :: "int \<Rightarrow> int" where
  "year_of t = fst (civil_from_days (day_of t))"

definition period_of :: "string \<Rightarrow> (int \<Rightarrow> int) option" where
  "period_of rule =
     (if rule = ''D'' then Some day_of
      else if rule = ''W'' then Some week_of
      else if rule = ''M'' then Some month_of
      else if rule = ''Y'' then Some year_of
      else None)"

text \<open>The mean of the values present; NaN when there is none.\<close>

definition mean :: "real list \<Rightarrow> real option" where
  "mean xs = (if xs = [] then None else Some (sum_list xs / real (length xs)))"

text \<open>
  \<open>series.resample(rule).mean()\<close> on a Series indexed by timestamps. The result has one
  entry for every period from the first to the last one that holds a row, in order: the mean
  of the values of the period's rows that are not NaN, and NaN for a period with no such
  value. Rows whose timestamp is NaT belong to no period. The entry's key is the number of
  its period.
\<close>

definition period_keys :: "(int \<Rightarrow> int) \<Rightarrow> (int option \<times> real option) list \<Rightarrow> int list" where
  "period_keys b rows = concat (map (\<lambda>r. case fst r of None \<Rightarrow> [] | Some t \<Rightarrow> [b t]) rows)"

definition period_values :: "(int \<Rightarrow> int) \<Rightarrow> (int option \<times> real option) list \<Rightarrow> int \<Rightarrow> real list" where
  "period_values b rows k =
     concat (map (\<lambda>r. case r of (Some t, Some x) \<Rightarrow> (if b t = k then [x] else []) | _ \<Rightarrow> []) rows)"

definition resample_mean ::
  "(int \<Rightarrow> int) \<Rightarrow> (int option \<times> real option) list \<Rightarrow> (int \<times> real option) list" where
  "resample_mean b rows =
     (let ks = period_keys b rows
      in if ks = [] then []
         else map (\<lambda>k. (k, mean (period_values b rows k))) [Min (set ks)..Max (set ks)])"

subsection \<open>\<open>DataFrame.corr\<close>\<close>

text \<open>
  \<open>corr\<close> hands the frame to its kernel as an array of floats. The script passes float64 and
  int64 columns only; the other dtypes are refused here.
\<close>

fun float_values :: "column \<Rightarrow> error + real option list" where
  "float_values (FloatCol xs) = Inr xs"
| "float_values (IntCol xs) = Inr (map (\<lambda>i. Some (real_of_int i)) xs)"
| "float_values (BoolCol bs) = Inl TypeError"
| "float_values (DatetimeCol ts) = Inl TypeError"
| "float_values (ObjectCol cells) = Inl TypeError"

fun collect :: "(error + 'a) list \<Rightarrow> error + 'a list" where
  "collect [] = Inr []"
| "collect (Inl e # rs) = Inl e"
| "collect (Inr x # rs) = (case collect rs of Inl e \<Rightarrow> Inl e | Inr xs \<Rightarrow> Inr (x # xs))"

text \<open>
  Pearson's coefficient of two columns, over the rows where both hold a value (pairwise
  deletion, \<open>min_periods = 1\<close>). The kernel divides the co-moment by the square root of the
  product of the two sums of squared deviations, and returns NaN when that divisor is 0.
\<close>

definition complete_pairs :: "real option list \<Rightarrow> real option list \<Rightarrow> (real \<times> real) list" where
  "complete_pairs xs ys =
     concat (map (\<lambda>r. case r of (Some x, Some y) \<Rightarrow> [(x, y)] | _ \<Rightarrow> []) (zip xs ys))"

definition pearson :: "real option list \<Rightarrow> real option list \<Rightarrow> real option" where
  "pearson xs ys =
     (let ps = complete_pairs xs ys;
          nobs = real (length ps);
          meanx = sum_list (map fst ps) / nobs;
          meany = sum_list (map snd ps) / nobs;
          ssqdm_x = sum_list (map (\<lambda>p. (fst p - meanx) * (fst p - meanx)) ps);
          ssqdm_y = sum_list (map (\<lambda>p. (snd p - meany) * (snd p - meany)) ps);
          covxy = sum_list (map (\<lambda>p. (fst p - meanx) * (snd p - meany)) ps);
          divisor = sqrt (ssqdm_x * ssqdm_y)
      in if length ps < 1 then None
         else if divisor \<noteq> 0 then Some (covxy / divisor)
         else None)"

text \<open>The correlation matrix, as the list of its rows; its labels are the frame's columns.\<close>

definition corr :: "dataframe \<Rightarrow> error + real option list list" where
  "corr frame =
     (case collect (map (\<lambda>nc. float_values (snd nc)) frame) of
        Inl e \<Rightarrow> Inl e
      | Inr mat \<Rightarrow> Inr (map (\<lambda>xs. map (\<lambda>ys. pearson xs ys) mat) mat))"

subsection \<open>\<open>DataFrame.nlargest\<close>\<close>

type_synonym corr_row = "string \<times> string \<times> real option"

definition correlation :: "corr_row \<Rightarrow> real option" where
  "correlation r = snd (snd r)"

text \<open>
  \<open>frame.nlargest(n, 'Correlation')\<close> returns the first \<open>n\<close> rows in descending order of the
  column, rows of equal value in their order in the frame (\<open>keep='first'\<close>). The frame is
  built from the list of the rows; built from the empty list it has no column at all, and
  asking for the column raises a KeyError. pandas releases differ on the rows whose value is
  NaN: the older ones leave them out, the newer ones put them after the others, so that they
  fill the result when fewer than \<open>n\<close> rows have a value. The flag \<open>nan_kept\<close> says which
  pandas runs the script.
\<close>

definition nlargest :: "bool \<Rightarrow> nat \<Rightarrow> corr_row list \<Rightarrow> error + corr_row list" where
  "nlargest nan_kept n rows =
     (if rows = [] then Inl KeyError
      else Inr (take n
        (sort_key (\<lambda>r. - the (correlation r)) (filter (\<lambda>r. correlation r \<noteq> None) rows)
         @ (if nan_kept then filter (\<lambda>r. correlation r = None) rows else []))))"

section \<open>The script\<close>

text \<open>
  One run of the script renders a list of elements. The choices the user makes in the
  widgets are the run's input: the view, the entry picked in each select box (by its
  position; a select box with no entry returns \<open>None\<close>) and the frequency.
\<close>

datatype viz =
  Distribution_Plots | Correlation_Analysis | Scatter_Plots | Box_Plots | Time_Series_Analysis

datatype frequency = Day | Week | Month | Year

datatype element =
    Plotly_chart string "string option list"
  | Heatmap "real option list list"
  | Subheader string
  | Dataframe "corr_row list"
  | Line_chart "(int \<times> real option) list"
  | Warning string
  | Info string

record ui =
  viz_type :: viz
  pick :: "string \<Rightarrow> nat"
  freq :: frequency

definition selectbox :: "nat \<Rightarrow> 'a list \<Rightarrow> 'a option" where
  "selectbox i opts = (if i < length opts then Some (opts ! i) else None)"

fun freq_map :: "frequency \<Rightarrow> string" where
  "freq_map Day = ''D''"
| "freq_map Week = ''W''"
| "freq_map Month = ''M''"
| "freq_map Year = ''Y''"

subsection \<open>Correlation Analysis (lines 77 to 96)\<close>

text \<open>
  The two nested loops of lines 88 to 94: the pairs of positions they visit, in the order
  they visit them, and the row appended for each.
\<close>

definition pair_indices :: "nat \<Rightarrow> (nat \<times> nat) list" where
  "pair_indices n = concat (map (\<lambda>i. map (\<lambda>j. (i, j)) [i + 1..<n]) [0..<n])"

definition corr_pairs :: "string list \<Rightarrow> real option list list \<Rightarrow> corr_row list" where
  "corr_pairs cols corr_matrix =
     map (\<lambda>ij. (cols ! fst ij, cols ! snd ij, corr_matrix ! fst ij ! snd ij))
         (pair_indices (length cols))"

definition top_correlations :: "bool \<Rightarrow> string list \<Rightarrow> real option list list \<Rightarrow> error + corr_row list" where
  "top_correlations nan_kept cols corr_matrix = nlargest nan_kept 5 (corr_pairs cols corr_matrix)"

definition correlation_analysis :: "bool \<Rightarrow> dataframe \<Rightarrow> error + element list" where
  "correlation_analysis nan_kept df =
     (if length (numeric_cols df) > 1 then
        (case corr (getitem_list df (numeric_cols df)) of
           Inl e \<Rightarrow> Inl e
         | Inr corr_matrix \<Rightarrow>
            (case top_correlations nan_kept (columns (getitem_list df (numeric_cols df))) corr_matrix of
               Inl e \<Rightarrow> Inl e
             | Inr top5 \<Rightarrow>
                Inr [Heatmap corr_matrix, Subheader ''Top 5 Correlations'', Dataframe top5]))
      else Inr [])"

subsection \<open>Time Series Analysis (lines 122 to 148)\<close>

text \<open>
  The loop of lines 127 to 132 over the labels of the object columns, as they were when the
  loop started. It carries \<open>df\<close> and \<open>date_cols\<close>; the bare \<open>except\<close> swallows every exception
  of the body and goes on with the next label.
\<close>

fun convert_object_cols ::
  "date_parser \<Rightarrow> string list \<Rightarrow> dataframe \<times> string list \<Rightarrow> dataframe \<times> string list" where
  "convert_object_cols p [] (df, date_cols) = (df, date_cols)"
| "convert_object_cols p (col # cols) (df, date_cols) =
     (case getitem df col of
        Inl e \<Rightarrow> convert_object_cols p cols (df, date_cols)
      | Inr obj \<Rightarrow>
         (case to_datetime p obj of
            Inl e \<Rightarrow> convert_object_cols p cols (df, date_cols)
          | Inr v \<Rightarrow> convert_object_cols p cols (setitem df col v, date_cols @ [col])))"

text \<open>Lines 124 to 132: the temporal columns, after the fallback conversion when there is none.\<close>

definition find_date_cols :: "date_parser \<Rightarrow> dataframe \<Rightarrow> dataframe \<times> string list" where
  "find_date_cols p df =
     (if length (datetime_cols df) = 0
      then convert_object_cols p (columns (select_dtypes [Object] df)) (df, datetime_cols df)
      else (df, datetime_cols df))"

text \<open>
  \<open>df.set_index(date_col)[value_col]\<close>: the rows of the value column, indexed by the date
  column. Resampling needs a datetime index and refuses any other with a TypeError; a select
  box without entries has returned \<open>None\<close>, which is no label of the frame.
\<close>

definition series_by_date ::
  "dataframe \<Rightarrow> string \<Rightarrow> string option \<Rightarrow> error + (int option \<times> real option) list" where
  "series_by_date df date_col value_col =
     (case getitem df date_col of
        Inl e \<Rightarrow> Inl e
      | Inr (Series (DatetimeCol ts)) \<Rightarrow>
         (case value_col of
            None \<Rightarrow> Inl KeyError
          | Some vc \<Rightarrow>
             (case getitem df vc of
                Inl e \<Rightarrow> Inl e
              | Inr (Series c) \<Rightarrow>
                 (case float_values c of Inl e \<Rightarrow> Inl e | Inr xs \<Rightarrow> Inr (zip ts xs))
              | Inr (Frame f) \<Rightarrow> Inl TypeError))
      | Inr other \<Rightarrow> Inl TypeError)"

definition resample :: "string \<Rightarrow> (int option \<times> real option) list \<Rightarrow> error + (int \<times> real option) list" where
  "resample rule rows =
     (case period_of rule of
        None \<Rightarrow> Inl ValueError
      | Some b \<Rightarrow> Inr (resample_mean b rows))"

definition time_series ::
  "date_parser \<Rightarrow> ui \<Rightarrow> dataframe \<Rightarrow> error + dataframe \<times> element list" where
  "time_series p u df0 =
     (case find_date_cols p df0 of (df, date_cols) \<Rightarrow>
        if length date_cols > 0 then
          (case selectbox (pick u ''Select date column'') date_cols of
             None \<Rightarrow> Inl KeyError
           | Some date_col \<Rightarrow>
              (case series_by_date df date_col
                      (selectbox (pick u ''Select value column'') (numeric_cols df0)) of
                 Inl e \<Rightarrow> Inl e
               | Inr rows \<Rightarrow>
                  (case resample (freq_map (freq u)) rows of
                     Inl e \<Rightarrow> Inl e
                   | Inr df_time \<Rightarrow> Inr (df, [Line_chart df_time]))))
        else Inr (df, [Warning ''No datetime columns found for time series analysis'']))"

subsection \<open>The views (lines 62 to 148)\<close>

text \<open>
  The result of a run is the frame \<open>df\<close> as the view leaves it, and what the view rendered.
  The charts of plotly are rendered as they are asked for: a chart is its kind and the
  columns it was given.
\<close>

definition dashboard ::
  "date_parser \<Rightarrow> bool \<Rightarrow> ui \<Rightarrow> dataframe \<Rightarrow> error + dataframe \<times> element list" where
  "dashboard p nan_kept u df =
     (case viz_type u of
        Distribution_Plots \<Rightarrow>
          Inr (df,
            [Plotly_chart ''histogram''
               [selectbox (pick u ''Select column for histogram'') (numeric_cols df)],
             Plotly_chart ''violin''
               [selectbox (pick u ''Select column for KDE plot'') (numeric_cols df)]])
      | Correlation_Analysis \<Rightarrow>
          (case correlation_analysis nan_kept df of
             Inl e \<Rightarrow> Inl e
           | Inr out \<Rightarrow> Inr (df, out))
      | Scatter_Plots \<Rightarrow>
          Inr (df,
            [Plotly_chart ''scatter''
               [selectbox (pick u ''Select X axis'') (numeric_cols df),
                selectbox (pick u ''Select Y axis'') (numeric_cols df),
                selectbox (pick u ''Select color variable (optional)'') (''None'' # columns df)]])
      | Box_Plots \<Rightarrow>
          (if length (category_cols df) > 0 then
             Inr (df,
               [Plotly_chart ''box''
                  [selectbox (pick u ''Select category column'') (category_cols df),
                   selectbox (pick u ''Select numeric column'') (numeric_cols df)]])
           else Inr (df, [Warning ''No categorical columns found for box plots'']))
      | Time_Series_Analysis \<Rightarrow> time_series p u df)"

subsection \<open>One interaction (lines 32 to 160)\<close>

text \<open>
  Streamlit runs the whole script again at every interaction. What lasts from one run to
  the next is the uploaded file; \<open>dataset\<close> is the frame the last run left in \<open>df\<close>. Line 36
  assigns \<open>df\<close> anew from the file at every run. The reader \<open>read_csv\<close> is a parameter.
  The overview of lines 38 to 51 only reads \<open>df\<close>, and the download button of lines 150 to
  158 hands \<open>df.to_csv(index=False)\<close> of the frame the view left to the browser: neither is
  part of the model.
\<close>

record 'f session =
  uploaded_file :: "'f option"
  dataset :: "dataframe option"

definition script ::
  "('f \<Rightarrow> error + dataframe) \<Rightarrow> date_parser \<Rightarrow> bool \<Rightarrow> ui \<Rightarrow> 'f session
     \<Rightarrow> error + 'f session \<times> element list" where
  "script read_csv p nan_kept u s =
     (case uploaded_file s of
        None \<Rightarrow> Inr (s, [Info ''Please upload a CSV file to begin analysis''])
      | Some f \<Rightarrow>
         (case read_csv f of
            Inl e \<Rightarrow> Inl e
          | Inr df0 \<Rightarrow>
             (case dashboard p nan_kept u df0 of
                Inl e \<Rightarrow> Inl e
              | Inr (df, out) \<Rightarrow> Inr (s\<lparr>dataset := Some df\<rparr>, out))))"

section \<open>The fallback conversion in the specification's words\<close>

text \<open>
  The specification describes the loop of lines 127 to 132 by its outcome: every text column
  whose every value parses is converted where it stands, and its label joins the temporal
  ones, in the stored order. A missing cell has nothing to parse and becomes NaT. The three
  definitions below state that outcome, for a parser \<open>q\<close> of one cell and for the parser
  \<open>p cells\<close> of each column; the loop is compared with them.
\<close>

definition every_value_parses :: "(string \<Rightarrow> int option) \<Rightarrow> string option list \<Rightarrow> bool" where
  "every_value_parses q cells =
     list_all (\<lambda>c. case c of None \<Rightarrow> True | Some s \<Rightarrow> q s \<noteq> None) cells"

definition spec_fallback_frame :: "date_parser \<Rightarrow> dataframe \<Rightarrow> dataframe" where
  "spec_fallback_frame p df =
     map (\<lambda>nc. case snd nc of
                 ObjectCol cells \<Rightarrow>
                   if every_value_parses (p cells) cells
                   then (fst nc, DatetimeCol (map (\<lambda>c. Option.bind c (p cells)) cells))
                   else nc
               | other \<Rightarrow> nc) df"

definition spec_fallback_labels :: "date_parser \<Rightarrow> dataframe \<Rightarrow> string list" where
  "spec_fallback_labels p df =
     concat (map (\<lambda>nc. case snd nc of
                 ObjectCol cells \<Rightarrow> if every_value_parses (p cells) cells then [fst nc] else []
               | other \<Rightarrow> []) df)"

section \<open>Columns that vary\<close>



section \<open>A date parser for the examples\<close>

text \<open>
  The examples need one parser to run with: it reads two ISO dates, 2024-01-01 and
  2024-01-05 (days 19723 and 19727 since the epoch), and nothing else.
\<close>

definition example_parser :: date_parser where
  "example_parser cells s =
     (if s = ''2024-01-01'' then Some (19723 * ns_per_day)
      else if s = ''2024-01-05'' then Some (19727 * ns_per_day)
      else None)"

section \<open>Column classification\<close>

lemma columns_select_dtypes_iff:
  assumes "distinct (columns df)" and "(n, c) \<in> set df"
  shows "n \<in> set (columns (select_dtypes incl df)) \<longleftrightarrow> dtype_of c \<in> set incl"
proof
  assume "n \<in> set (columns (select_dtypes incl df))"
  then obtain c' where c': "(n, c') \<in> set df" "dtype_of c' \<in> set incl"
    by (auto simp: columns_def select_dtypes_def)
  from assms c'(1) have "c' = c"
    unfolding columns_def by (meson eq_key_imp_eq_value)
  with c'(2) show "dtype_of c \<in> set incl" by simp
next
  assume "dtype_of c \<in> set incl"
  with assms(2) show "n \<in> set (columns (select_dtypes incl df))"
    by (force simp: columns_def select_dtypes_def)
qed

text \<open>
  C8 (counterexample). The claim says that every column is in one of the three lists, a
  boolean column falling with the categorical ones. A frame with a boolean column shows that
  it is in none: the categorical list of line 114 selects the object dtype only.
\<close>

theorem classify_bool_counterexample:
  "''burned'' \<in> set (columns [(''area'', FloatCol [Some 2]), (''burned'', BoolCol [True])]) \<and>
   ''burned'' \<notin> set (numeric_cols [(''area'', FloatCol [Some 2]), (''burned'', BoolCol [True])]) \<and>
   ''burned'' \<notin> set (datetime_cols [(''area'', FloatCol [Some 2]), (''burned'', BoolCol [True])]) \<and>
   ''burned'' \<notin> set (category_cols [(''area'', FloatCol [Some 2]), (''burned'', BoolCol [True])])"
  by (simp add: columns_def numeric_cols_def datetime_cols_def category_cols_def select_dtypes_def)

text \<open>
  C8 (amended). In a frame with unique labels the three lists are decided by the dtype
  alone: a column is numeric exactly when it is float64 or int64, temporal exactly when it is
  datetime64, categorical exactly when it is object. So no column is in two lists, and the
  columns in no list are exactly the boolean ones.
\<close>

theorem classify_by_dtype:
  assumes "distinct (columns df)" and "(n, c) \<in> set df"
  shows "(n \<in> set (numeric_cols df) \<longleftrightarrow> dtype_of c = Float64 \<or> dtype_of c = Int64) \<and>
         (n \<in> set (datetime_cols df) \<longleftrightarrow> dtype_of c = Datetime64) \<and>
         (n \<in> set (category_cols df) \<longleftrightarrow> dtype_of c = Object) \<and>
         \<not> (n \<in> set (numeric_cols df) \<and> n \<in> set (datetime_cols df)) \<and>
         \<not> (n \<in> set (numeric_cols df) \<and> n \<in> set (category_cols df)) \<and>
         \<not> (n \<in> set (datetime_cols df) \<and> n \<in> set (category_cols df)) \<and>
         (n \<notin> set (numeric_cols df) \<and> n \<notin> set (datetime_cols df) \<and> n \<notin> set (category_cols df)
            \<longleftrightarrow> dtype_of c = Bool)"
proof -
  have num: "n \<in> set (numeric_cols df) \<longleftrightarrow> dtype_of c = Float64 \<or> dtype_of c = Int64"
    using columns_select_dtypes_iff [OF assms, of "[Float64, Int64]"]
    by (simp add: numeric_cols_def)
  have dat: "n \<in> set (datetime_cols df) \<longleftrightarrow> dtype_of c = Datetime64"
    using columns_select_dtypes_iff [OF assms, of "[Datetime64]"]
    by (simp add: datetime_cols_def)
  have cat: "n \<in> set (category_cols df) \<longleftrightarrow> dtype_of c = Object"
    using columns_select_dtypes_iff [OF assms, of "[Object]"]
    by (simp add: category_cols_def)
  show ?thesis
    unfolding num dat cat by (cases "dtype_of c") simp_all
qed

text \<open>
  C8 (witness). A frame with a float column and a boolean column: the float column is
  numeric and not categorical.
\<close>

theorem classify_by_dtype_witness:
  "distinct (columns [(''area'', FloatCol [Some 2]), (''burned'', BoolCol [True])]) \<and>
   (''area'', FloatCol [Some 2]) \<in> set [(''area'', FloatCol [Some 2]), (''burned'', BoolCol [True])] \<and>
   ''area'' \<in> set (numeric_cols [(''area'', FloatCol [Some 2]), (''burned'', BoolCol [True])]) \<and>
   ''area'' \<notin> set (category_cols [(''area'', FloatCol [Some 2]), (''burned'', BoolCol [True])])"
proof -
  have d: "distinct (columns [(''area'', FloatCol [Some 2]), (''burned'', BoolCol [True])])"
    by (simp add: columns_def)
  have m: "(''area'', FloatCol [Some 2]) \<in> set [(''area'', FloatCol [Some 2]), (''burned'', BoolCol [True])]"
    by simp
  show ?thesis
    using d m classify_by_dtype [OF d m] by simp
qed

section \<open>Frames with unique labels\<close>

lemma getitem_unique:
  assumes "distinct (columns (pre @ (n, c) # rest))"
  shows "getitem (pre @ (n, c) # rest) n = Inr (Series c)"
proof -
  have "filter (\<lambda>nc. fst nc = n) pre = []" "filter (\<lambda>nc. fst nc = n) rest = []"
    using assms by (auto simp: columns_def filter_empty_conv)
  then show ?thesis by (simp add: getitem_def)
qed

lemma setitem_unique:
  assumes "distinct (columns (pre @ (n, c) # rest))"
  shows "setitem (pre @ (n, c) # rest) n v = pre @ (n, v) # rest"
proof -
  have "\<forall>nc \<in> set pre. fst nc \<noteq> n" "\<forall>nc \<in> set rest. fst nc \<noteq> n"
    using assms by (auto simp: columns_def)
  then have "map (\<lambda>nc. if fst nc = n then (n, v) else nc) pre = pre"
       "map (\<lambda>nc. if fst nc = n then (n, v) else nc) rest = rest"
    by (simp_all add: map_idI)
  then show ?thesis by (simp add: setitem_def columns_def)
qed






section \<open>The fallback conversion of text columns\<close>

lemma parse_cells_eq:
  "parse_cells p cells =
     (if every_value_parses p cells then Some (map (\<lambda>c. Option.bind c p) cells) else None)"
  by (induction p cells rule: parse_cells.induct)
    (auto simp: every_value_parses_def split: option.splits)

lemma convert_object_cols_suffix:
  "distinct (columns (pre @ rest)) \<Longrightarrow>
   convert_object_cols p (columns (select_dtypes [Object] rest)) (pre @ rest, dc)
     = (pre @ spec_fallback_frame p rest, dc @ spec_fallback_labels p rest)"
proof (induction rest arbitrary: pre dc)
  case Nil
  then show ?case
    by (simp add: select_dtypes_def columns_def spec_fallback_frame_def spec_fallback_labels_def)
next
  case (Cons nc rest)
  obtain n c where nc: "nc = (n, c)" by (cases nc)
  show ?case
  proof (cases c)
    case (ObjectCol cells)
    have d: "distinct (columns (pre @ (n, ObjectCol cells) # rest))"
      using Cons.prems nc ObjectCol by simp
    show ?thesis
    proof (cases "every_value_parses (p cells) cells")
      case True
      let ?v = "DatetimeCol (map (\<lambda>c. Option.bind c (p cells)) cells)"
      have d': "distinct (columns ((pre @ [(n, ?v)]) @ rest))"
        using d by (simp add: columns_def)
      show ?thesis
        using Cons.IH [OF d', of "dc @ [n]"] True
        by (simp add: nc ObjectCol select_dtypes_def columns_def
            getitem_unique [OF d] setitem_unique [OF d] parse_cells_eq
            spec_fallback_frame_def spec_fallback_labels_def)
    next
      case False
      have d': "distinct (columns ((pre @ [(n, ObjectCol cells)]) @ rest))"
        using d by simp
      show ?thesis
        using Cons.IH [OF d', of dc] False
        by (simp add: nc ObjectCol select_dtypes_def columns_def
            getitem_unique [OF d] parse_cells_eq
            spec_fallback_frame_def spec_fallback_labels_def)
    qed
  next
    case (FloatCol xs)
    have d': "distinct (columns ((pre @ [(n, c)]) @ rest))"
      using Cons.prems nc by simp
    show ?thesis
      using Cons.IH [OF d', of dc]
      by (simp add: nc FloatCol select_dtypes_def spec_fallback_frame_def spec_fallback_labels_def)
  next
    case (IntCol xs)
    have d': "distinct (columns ((pre @ [(n, c)]) @ rest))"
      using Cons.prems nc by simp
    show ?thesis
      using Cons.IH [OF d', of dc]
      by (simp add: nc IntCol select_dtypes_def spec_fallback_frame_def spec_fallback_labels_def)
  next
    case (BoolCol xs)
    have d': "distinct (columns ((pre @ [(n, c)]) @ rest))"
      using Cons.prems nc by simp
    show ?thesis
      using Cons.IH [OF d', of dc]
      by (simp add: nc BoolCol select_dtypes_def spec_fallback_frame_def spec_fallback_labels_def)
  next
    case (DatetimeCol xs)
    have d': "distinct (columns ((pre @ [(n, c)]) @ rest))"
      using Cons.prems nc by simp
    show ?thesis
      using Cons.IH [OF d', of dc]
      by (simp add: nc DatetimeCol select_dtypes_def spec_fallback_frame_def spec_fallback_labels_def)
  qed
qed

lemma find_date_cols_eq:
  assumes "distinct (columns df)"
  shows "find_date_cols p df =
     (if datetime_cols df = [] then (spec_fallback_frame p df, spec_fallback_labels p df)
      else (df, datetime_cols df))"
  using convert_object_cols_suffix [of "[]" df p "[]"] assms
  by (simp add: find_date_cols_def)

lemma columns_spec_fallback_frame: "columns (spec_fallback_frame p df) = columns df"
  by (induction df) (auto simp: columns_def spec_fallback_frame_def split: column.splits)

lemma dashboard_frame:
  assumes "dashboard p k u df = Inr (df', out)"
  shows "df' = (if viz_type u = Time_Series_Analysis then fst (find_date_cols p df) else df)"
  using assms
  by (cases "viz_type u")
     (auto simp: dashboard_def time_series_def split: sum.splits if_splits option.splits prod.splits)

lemma collect_float_values_error:
  "collect (map (\<lambda>nc. float_values (snd nc)) frame) = Inl e \<Longrightarrow> e = TypeError"
proof (induction frame)
  case Nil
  then show ?case by simp
next
  case (Cons nc frame)
  then show ?case
    by (cases "snd nc") (auto split: sum.splits)
qed

lemma correlation_analysis_error:
  "correlation_analysis k df = Inl e \<Longrightarrow> e \<noteq> ValueError"
  by (auto simp: correlation_analysis_def corr_def top_correlations_def nlargest_def
      split: if_splits sum.splits dest: collect_float_values_error)

lemma float_values_error: "float_values c = Inl e \<Longrightarrow> e = TypeError"
  by (cases c) auto

lemma getitem_error: "getitem df col = Inl e \<Longrightarrow> e = KeyError"
  by (auto simp: getitem_def split: list.splits)

lemma series_by_date_error: "series_by_date df d v = Inl e \<Longrightarrow> e \<noteq> ValueError"
  by (auto simp: series_by_date_def
      split: sum.splits pdobj.splits column.splits option.splits
      dest: getitem_error float_values_error)

lemma resample_freq_map: "resample (freq_map f) rows = Inr (resample_mean (the (period_of (freq_map f))) rows)"
  by (cases f) (simp_all add: resample_def period_of_def)

lemma time_series_error: "time_series p u df = Inl e \<Longrightarrow> e \<noteq> ValueError"
  by (auto simp: time_series_def resample_freq_map
      split: prod.splits if_splits option.splits sum.splits dest: series_by_date_error)

lemma dashboard_error: "dashboard p k u df \<noteq> Inl ValueError"
proof
  assume a: "dashboard p k u df = Inl ValueError"
  show False
  proof (cases "viz_type u")
    case Correlation_Analysis
    with a show ?thesis
      by (auto simp: dashboard_def split: sum.splits dest: correlation_analysis_error)
  next
    case Time_Series_Analysis
    with a show ?thesis
      by (auto simp: dashboard_def dest: time_series_error)
  qed (use a in \<open>auto simp: dashboard_def split: if_splits\<close>)
qed

lemma every_value_parses_iff:
  "every_value_parses p cells \<longleftrightarrow> (\<forall>s. Some s \<in> set cells \<longrightarrow> p s \<noteq> None)"
  by (induction cells) (auto simp: every_value_parses_def split: option.splits)

lemma spec_fallback_frame_keeps:
  assumes "(n, ObjectCol cells) \<in> set df" and "\<not> every_value_parses (p cells) cells"
  shows "(n, ObjectCol cells) \<in> set (spec_fallback_frame p df)"
  using assms by (induction df) (auto simp: spec_fallback_frame_def)

lemma spec_fallback_frame_converts:
  assumes "(n, ObjectCol cells) \<in> set df" and "every_value_parses (p cells) cells"
  shows "(n, DatetimeCol (map (\<lambda>c. Option.bind c (p cells)) cells)) \<in> set (spec_fallback_frame p df)"
  using assms by (induction df) (auto simp: spec_fallback_frame_def)

lemma spec_fallback_labels_mem:
  "n \<in> set (spec_fallback_labels p df) \<Longrightarrow>
   \<exists>cells. (n, ObjectCol cells) \<in> set df \<and> every_value_parses (p cells) cells"
  by (auto simp: spec_fallback_labels_def split: column.splits if_splits)

lemma find_date_cols_keeps:
  assumes "distinct (columns df)" and "(n, ObjectCol cells) \<in> set df"
    and "\<not> every_value_parses (p cells) cells"
  shows "(n, ObjectCol cells) \<in> set (fst (find_date_cols p df))"
    and "n \<notin> set (snd (find_date_cols p df))"
    and "distinct (columns (fst (find_date_cols p df)))"
proof -
  show "(n, ObjectCol cells) \<in> set (fst (find_date_cols p df))"
    using assms by (simp add: find_date_cols_eq spec_fallback_frame_keeps)
  show "distinct (columns (fst (find_date_cols p df)))"
    using assms(1) by (simp add: find_date_cols_eq columns_spec_fallback_frame)
  show "n \<notin> set (snd (find_date_cols p df))"
  proof (cases "datetime_cols df = []")
    case True
    have "n \<notin> set (spec_fallback_labels p df)"
    proof
      assume "n \<in> set (spec_fallback_labels p df)"
      then obtain cells' where c': "(n, ObjectCol cells') \<in> set df"
          "every_value_parses (p cells') cells'"
        using spec_fallback_labels_mem by blast
      from assms(1,2) c'(1) have "ObjectCol cells' = ObjectCol cells"
        unfolding columns_def by (meson eq_key_imp_eq_value)
      with c'(2) assms(3) show False by simp
    qed
    with True assms(1) show ?thesis by (simp add: find_date_cols_eq)
  next
    case False
    have "n \<notin> set (datetime_cols df)"
      using columns_select_dtypes_iff [OF assms(1,2), of "[Datetime64]"]
      by (simp add: datetime_cols_def)
    with False assms(1) show ?thesis by (simp add: find_date_cols_eq)
  qed
qed

text \<open>
  C1. In a frame with unique labels, the Time Series view with no temporal column leaves the
  frame and the temporal labels the specification describes: every text column whose every
  value parses is converted where it stands and its label is appended, in the stored order,
  and the other columns are as they were. With a temporal column already there, nothing is
  scanned: the frame is unchanged and the temporal labels are those of the datetime columns.
  Whatever the view, the frame a run ends with is the loaded one, but for the Time Series
  view, where it is the frame the conversion left: no other view converts anything.
\<close>

theorem fallback_conversion:
  assumes "distinct (columns df)"
  shows "(datetime_cols df = [] \<longrightarrow>
            find_date_cols p df = (spec_fallback_frame p df, spec_fallback_labels p df)) \<and>
         (datetime_cols df \<noteq> [] \<longrightarrow> find_date_cols p df = (df, datetime_cols df)) \<and>
         (\<forall>df' out. dashboard p nan_kept u df = Inr (df', out) \<longrightarrow>
            df' = (if viz_type u = Time_Series_Analysis then fst (find_date_cols p df) else df))"
  using assms by (auto simp: find_date_cols_eq dest: dashboard_frame)

text \<open>
  C1 (witness). A frame with two text columns and a number column: \<open>date\<close> parses (its
  second cell is missing) and is converted, \<open>note\<close> holds a value that is no date and stays
  as it is.
\<close>

theorem fallback_conversion_witness:
  "distinct (columns [(''date'', ObjectCol [Some ''2024-01-01'', None]),
                      (''note'', ObjectCol [Some ''2024-01-05'', Some ''not-a-date'']),
                      (''value'', IntCol [10, 20])]) \<and>
   datetime_cols [(''date'', ObjectCol [Some ''2024-01-01'', None]),
                  (''note'', ObjectCol [Some ''2024-01-05'', Some ''not-a-date'']),
                  (''value'', IntCol [10, 20])] = [] \<and>
   find_date_cols example_parser
     [(''date'', ObjectCol [Some ''2024-01-01'', None]),
      (''note'', ObjectCol [Some ''2024-01-05'', Some ''not-a-date'']),
      (''value'', IntCol [10, 20])]
   = ([(''date'', DatetimeCol [Some (19723 * ns_per_day), None]),
       (''note'', ObjectCol [Some ''2024-01-05'', Some ''not-a-date'']),
       (''value'', IntCol [10, 20])], [''date''])"
proof -
  have d: "distinct (columns [(''date'', ObjectCol [Some ''2024-01-01'', None]),
                      (''note'', ObjectCol [Some ''2024-01-05'', Some ''not-a-date'']),
                      (''value'', IntCol [10, 20])])"
    by (simp add: columns_def)
  show ?thesis
    using d fallback_conversion [OF d, of example_parser]
    by (simp add: datetime_cols_def select_dtypes_def columns_def spec_fallback_frame_def
        spec_fallback_labels_def every_value_parses_def example_parser_def)
qed

text \<open>
  C7. A text column with a value that does not parse: \<open>to_datetime\<close> raises on it, and the
  exception stops at the \<open>except\<close> of line 131. No run of the dashboard ends with that
  exception; after the conversion the column is in the frame as it was, its label is not
  among the temporal ones and it is still an object column, one of the categorical ones; the
  same holds in the frame any run ends with.
\<close>

theorem failed_parse_is_silent:
  assumes "distinct (columns df)" and "(n, ObjectCol cells) \<in> set df"
    and "Some s \<in> set cells" and "p cells s = None"
  shows "to_datetime p (Series (ObjectCol cells)) = Inl ValueError \<and>
         dashboard p nan_kept u df \<noteq> Inl ValueError \<and>
         (n, ObjectCol cells) \<in> set (fst (find_date_cols p df)) \<and>
         n \<notin> set (snd (find_date_cols p df)) \<and>
         n \<in> set (category_cols (fst (find_date_cols p df))) \<and>
         (\<forall>df' out. dashboard p nan_kept u df = Inr (df', out) \<longrightarrow>
            (n, ObjectCol cells) \<in> set df' \<and> n \<in> set (category_cols df'))"
proof -
  have np: "\<not> every_value_parses (p cells) cells"
    using assms(3,4) by (auto simp: every_value_parses_iff)
  note keeps = find_date_cols_keeps [where p = p, OF assms(1,2) np]
  have cat: "n \<in> set (category_cols (fst (find_date_cols p df)))"
    using columns_select_dtypes_iff [OF keeps(3) keeps(1), of "[Object]"]
    by (simp add: category_cols_def)
  have cat0: "n \<in> set (category_cols df)"
    using columns_select_dtypes_iff [OF assms(1,2), of "[Object]"]
    by (simp add: category_cols_def)
  have "to_datetime p (Series (ObjectCol cells)) = Inl ValueError"
    using np by (simp add: parse_cells_eq)
  moreover have "\<forall>df' out. dashboard p nan_kept u df = Inr (df', out) \<longrightarrow>
            (n, ObjectCol cells) \<in> set df' \<and> n \<in> set (category_cols df')"
    using keeps(1) cat cat0 assms(2) by (auto dest!: dashboard_frame split: if_splits)
  ultimately show ?thesis
    using keeps(1,2) cat dashboard_error by blast
qed

text \<open>
  C7 (witness). The column \<open>note\<close> holds \<open>not-a-date\<close>: it is in the frame after the
  conversion as it was before, and its label is not among the temporal ones.
\<close>

theorem failed_parse_is_silent_witness:
  "distinct (columns [(''note'', ObjectCol [Some ''2024-01-05'', Some ''not-a-date'']),
                      (''value'', IntCol [10, 20])]) \<and>
   (''note'', ObjectCol [Some ''2024-01-05'', Some ''not-a-date''])
      \<in> set [(''note'', ObjectCol [Some ''2024-01-05'', Some ''not-a-date'']),
              (''value'', IntCol [10, 20])] \<and>
   Some ''not-a-date'' \<in> set [Some ''2024-01-05'', Some ''not-a-date''] \<and>
   example_parser [Some ''2024-01-05'', Some ''not-a-date''] ''not-a-date'' = None \<and>
   (''note'', ObjectCol [Some ''2024-01-05'', Some ''not-a-date''])
      \<in> set (fst (find_date_cols example_parser
            [(''note'', ObjectCol [Some ''2024-01-05'', Some ''not-a-date'']),
             (''value'', IntCol [10, 20])])) \<and>
   ''note'' \<notin> set (snd (find_date_cols example_parser
            [(''note'', ObjectCol [Some ''2024-01-05'', Some ''not-a-date'']),
             (''value'', IntCol [10, 20])]))"
proof -
  have d: "distinct (columns [(''note'', ObjectCol [Some ''2024-01-05'', Some ''not-a-date'']),
                      (''value'', IntCol [10, 20])])"
    by (simp add: columns_def)
  have m: "(''note'', ObjectCol [Some ''2024-01-05'', Some ''not-a-date''])
      \<in> set [(''note'', ObjectCol [Some ''2024-01-05'', Some ''not-a-date'']),
              (''value'', IntCol [10, 20])]"
    by simp
  have c: "Some ''not-a-date'' \<in> set [Some ''2024-01-05'', Some ''not-a-date'']"
    by simp
  have f: "example_parser [Some ''2024-01-05'', Some ''not-a-date''] ''not-a-date'' = None"
    by (simp add: example_parser_def)
  show ?thesis
    using d m c f failed_parse_is_silent [where p = example_parser and s = "''not-a-date''", OF d m c f] by blast
qed

section \<open>Resampling\<close>








section \<open>From one interaction to the next\<close>

lemma script_ignores_dataset:
  "uploaded_file s = Some f \<Longrightarrow> script rc p k u (s\<lparr>dataset := d\<rparr>) = script rc p k u s"
  by (simp add: script_def split: sum.splits prod.splits)

lemma script_next:
  assumes "script rc p k u s = Inr (s', out)"
  shows "script rc p k u' s' = script rc p k u' s"
proof (cases "uploaded_file s")
  case None
  with assms show ?thesis by (simp add: script_def)
next
  case (Some f)
  with assms obtain df where "s' = s\<lparr>dataset := Some df\<rparr>"
    by (auto simp: script_def split: sum.splits prod.splits)
  with Some show ?thesis by (simp add: script_ignores_dataset)
qed

lemma spec_fallback_labels_datetime:
  assumes "n \<in> set (spec_fallback_labels p df)"
  shows "\<exists>ts. (n, DatetimeCol ts) \<in> set (spec_fallback_frame p df)"
proof -
  from assms obtain cells where "(n, ObjectCol cells) \<in> set df"
      "every_value_parses (p cells) cells"
    using spec_fallback_labels_mem by blast
  then show ?thesis
    using spec_fallback_frame_converts by blast
qed

lemma find_date_cols_temporal:
  assumes "distinct (columns df)" and "n \<in> set (snd (find_date_cols p df))"
  shows "\<exists>ts. (n, DatetimeCol ts) \<in> set (fst (find_date_cols p df))"
proof (cases "datetime_cols df = []")
  case True
  with assms show ?thesis
    by (simp add: find_date_cols_eq spec_fallback_labels_datetime)
next
  case False
  from assms False have "n \<in> set (datetime_cols df)"
    by (simp add: find_date_cols_eq)
  then obtain c where "(n, c) \<in> set df" "dtype_of c = Datetime64"
    by (auto simp: datetime_cols_def columns_def select_dtypes_def)
  then have "\<exists>ts. (n, DatetimeCol ts) \<in> set df"
    by (cases c) auto
  with assms(1) False show ?thesis by (simp add: find_date_cols_eq)
qed

text \<open>
  C9 (counterexample). Two interactions on one uploaded file. The first, a Time Series
  view, converts \<open>date\<close>. The second, whatever its view, starts from the file again: the
  frame it ends with has \<open>date\<close> as text. The conversion did not outlast the interaction.
\<close>

theorem conversion_reverts_counterexample:
  "script Inr example_parser False
      \<lparr>viz_type = Time_Series_Analysis, pick = (\<lambda>l. 0), freq = Day\<rparr>
      \<lparr>uploaded_file = Some [(''date'', ObjectCol [Some ''2024-01-01'']), (''value'', IntCol [10])],
       dataset = None\<rparr>
   = Inr (\<lparr>uploaded_file = Some [(''date'', ObjectCol [Some ''2024-01-01'']), (''value'', IntCol [10])],
           dataset = Some [(''date'', DatetimeCol [Some (19723 * ns_per_day)]), (''value'', IntCol [10])]\<rparr>,
          [Line_chart [(19723, Some 10)]]) \<and>
   script Inr example_parser False
      \<lparr>viz_type = Distribution_Plots, pick = (\<lambda>l. 0), freq = Day\<rparr>
      \<lparr>uploaded_file = Some [(''date'', ObjectCol [Some ''2024-01-01'']), (''value'', IntCol [10])],
       dataset = Some [(''date'', DatetimeCol [Some (19723 * ns_per_day)]), (''value'', IntCol [10])]\<rparr>
   = Inr (\<lparr>uploaded_file = Some [(''date'', ObjectCol [Some ''2024-01-01'']), (''value'', IntCol [10])],
           dataset = Some [(''date'', ObjectCol [Some ''2024-01-01'']), (''value'', IntCol [10])]\<rparr>,
          [Plotly_chart ''histogram'' [Some ''value''], Plotly_chart ''violin'' [Some ''value'']])"
  by (simp add: script_def dashboard_def time_series_def find_date_cols_def datetime_cols_def
      numeric_cols_def select_dtypes_def columns_def getitem_def setitem_def example_parser_def
      selectbox_def series_by_date_def resample_def period_of_def resample_mean_def
      period_keys_def period_values_def mean_def day_of_def ns_per_day_def)

text \<open>
  C9 (amended). An interaction that follows another gives what it would have given without
  it: the frame the earlier run left is not read. With a file uploaded, the frame a run
  leaves is the one the dashboard made from the file as \<open>read_csv\<close> loads it in that run.
  Within a run the upgrade holds: every label among the temporal ones is a datetime column
  of the frame the conversion leaves.
\<close>

theorem dataset_reloaded_at_every_interaction:
  assumes "script read_csv p nan_kept u s = Inr (s', out)"
  shows "script read_csv p nan_kept u' s' = script read_csv p nan_kept u' s \<and>
         (\<forall>f. uploaded_file s = Some f \<longrightarrow>
            (\<exists>df0 df. read_csv f = Inr df0 \<and> dashboard p nan_kept u df0 = Inr (df, out) \<and>
               s' = s\<lparr>dataset := Some df\<rparr> \<and>
               (distinct (columns df0) \<and> viz_type u = Time_Series_Analysis \<longrightarrow>
                  (\<forall>n \<in> set (snd (find_date_cols p df0)). \<exists>ts. (n, DatetimeCol ts) \<in> set df))))"
proof -
  have nxt: "script read_csv p nan_kept u' s' = script read_csv p nan_kept u' s"
    using assms by (rule script_next)
  have run: "\<forall>f. uploaded_file s = Some f \<longrightarrow>
            (\<exists>df0 df. read_csv f = Inr df0 \<and> dashboard p nan_kept u df0 = Inr (df, out) \<and>
               s' = s\<lparr>dataset := Some df\<rparr> \<and>
               (distinct (columns df0) \<and> viz_type u = Time_Series_Analysis \<longrightarrow>
                  (\<forall>n \<in> set (snd (find_date_cols p df0)). \<exists>ts. (n, DatetimeCol ts) \<in> set df)))"
  proof (intro allI impI)
    fix f
    assume "uploaded_file s = Some f"
    with assms obtain df0 df where r: "read_csv f = Inr df0"
        "dashboard p nan_kept u df0 = Inr (df, out)" "s' = s\<lparr>dataset := Some df\<rparr>"
      by (auto simp: script_def split: sum.splits prod.splits)
    have "distinct (columns df0) \<and> viz_type u = Time_Series_Analysis \<longrightarrow>
            (\<forall>n \<in> set (snd (find_date_cols p df0)). \<exists>ts. (n, DatetimeCol ts) \<in> set df)"
    proof (intro impI ballI, elim conjE)
      fix n
      assume d: "distinct (columns df0)" and v: "viz_type u = Time_Series_Analysis"
        and n: "n \<in> set (snd (find_date_cols p df0))"
      from dashboard_frame [OF r(2)] v have "df = fst (find_date_cols p df0)" by simp
      with find_date_cols_temporal [OF d n] show "\<exists>ts. (n, DatetimeCol ts) \<in> set df" by simp
    qed
    with r show "\<exists>df0 df. read_csv f = Inr df0 \<and> dashboard p nan_kept u df0 = Inr (df, out) \<and>
               s' = s\<lparr>dataset := Some df\<rparr> \<and>
               (distinct (columns df0) \<and> viz_type u = Time_Series_Analysis \<longrightarrow>
                  (\<forall>n \<in> set (snd (find_date_cols p df0)). \<exists>ts. (n, DatetimeCol ts) \<in> set df))"
      by (intro exI [of _ df0] exI [of _ df] conjI)
  qed
  show ?thesis
    by (intro conjI nxt run)
qed

text \<open>
  C9 (witness). A Time Series interaction converts \<open>date\<close>; the same request made again
  gives what it gives on the session as it was before: it converts \<open>date\<close> again.
\<close>

theorem dataset_reloaded_at_every_interaction_witness:
  "script Inr example_parser False
      \<lparr>viz_type = Time_Series_Analysis, pick = (\<lambda>l. 0), freq = Day\<rparr>
      \<lparr>uploaded_file = Some [(''date'', ObjectCol [Some ''2024-01-01'']), (''value'', IntCol [10])],
       dataset = None\<rparr>
   = Inr (\<lparr>uploaded_file = Some [(''date'', ObjectCol [Some ''2024-01-01'']), (''value'', IntCol [10])],
           dataset = Some [(''date'', DatetimeCol [Some (19723 * ns_per_day)]), (''value'', IntCol [10])]\<rparr>,
          [Line_chart [(19723, Some 10)]]) \<and>
   script Inr example_parser False
      \<lparr>viz_type = Time_Series_Analysis, pick = (\<lambda>l. 0), freq = Day\<rparr>
      \<lparr>uploaded_file = Some [(''date'', ObjectCol [Some ''2024-01-01'']), (''value'', IntCol [10])],
       dataset = Some [(''date'', DatetimeCol [Some (19723 * ns_per_day)]), (''value'', IntCol [10])]\<rparr>
   = script Inr example_parser False
      \<lparr>viz_type = Time_Series_Analysis, pick = (\<lambda>l. 0), freq = Day\<rparr>
      \<lparr>uploaded_file = Some [(''date'', ObjectCol [Some ''2024-01-01'']), (''value'', IntCol [10])],
       dataset = None\<rparr>"
proof -
  have r: "script Inr example_parser False
      \<lparr>viz_type = Time_Series_Analysis, pick = (\<lambda>l. 0), freq = Day\<rparr>
      \<lparr>uploaded_file = Some [(''date'', ObjectCol [Some ''2024-01-01'']), (''value'', IntCol [10])],
       dataset = None\<rparr>
   = Inr (\<lparr>uploaded_file = Some [(''date'', ObjectCol [Some ''2024-01-01'']), (''value'', IntCol [10])],
           dataset = Some [(''date'', DatetimeCol [Some (19723 * ns_per_day)]), (''value'', IntCol [10])]\<rparr>,
          [Line_chart [(19723, Some 10)]])"
    by (simp add: script_def dashboard_def time_series_def find_date_cols_def datetime_cols_def
      numeric_cols_def select_dtypes_def columns_def getitem_def setitem_def example_parser_def
      selectbox_def series_by_date_def resample_def period_of_def resample_mean_def
      period_keys_def period_values_def mean_def day_of_def ns_per_day_def)
  note next_run = dataset_reloaded_at_every_interaction [OF r,
        of "\<lparr>viz_type = Time_Series_Analysis, pick = (\<lambda>l. 0), freq = Day\<rparr>",
        THEN conjunct1]
  show ?thesis
    using r next_run by (intro conjI)
qed

section \<open>The correlation matrix\<close>




















text \<open>
  C4 (the code at the failing input). A frame with one numeric column, in the Correlation
  Analysis view: the run ends without an exception and renders nothing at all, neither a
  matrix, nor a table, nor a warning. The branch of line 78 has no \<open>else\<close>; the Box Plots and
  Time Series views have one, with \<open>st.warning\<close>.
\<close>

theorem correlation_one_numeric_column_renders_nothing:
  "dashboard p nan_kept \<lparr>viz_type = Correlation_Analysis, pick = sel, freq = f\<rparr>
     [(''area'', FloatCol [Some 2, Some 3]), (''region'', ObjectCol [Some ''north'', Some ''south''])]
   = Inr ([(''area'', FloatCol [Some 2, Some 3]),
           (''region'', ObjectCol [Some ''north'', Some ''south''])], [])"
  by (simp add: dashboard_def correlation_analysis_def numeric_cols_def select_dtypes_def
      columns_def)




section \<open>The top correlations\<close>




end
